theory Spec2Isabelle
  imports Complex_Main
begin

section \<open>Numbers, dates and the clock\<close>

text \<open>
  The dashboard of \<^verbatim>\<open>src/components/Dashboard.tsx\<close> computes with JavaScript numbers.
  They are embedded as exact rationals (\<^typ>\<open>rat\<close>); counters that the code only
  ever increments or compares (streaks, points) and everything \<^verbatim>\<open>Math.round\<close> or
  \<^verbatim>\<open>Math.floor\<close> returns are \<^typ>\<open>int\<close>. The rounding error of IEEE doubles
  is not part of the model.

  An instant is the number of milliseconds since the epoch, as \<^verbatim>\<open>Date.getTime()\<close>
  returns it, and an ISO time stamp string stands for its instant. A calendar date string
  \<^verbatim>\<open>YYYY-MM-DD\<close> stands for its day number since 1970-01-01; the empty or missing
  string, which JavaScript treats as false, is \<^term>\<open>None\<close>.
\<close>

type_synonym instant = int
type_synonym dateString = int

text \<open>
  What a handler reads from its surroundings: the clock (\<^verbatim>\<open>new Date()\<close>,
  \<^verbatim>\<open>Date.now()\<close>), the offset of the browser's local time from UTC in milliseconds
  (taken as fixed, so without daylight-saving changes), and whether a write to a table of
  the hosted store comes back without an error.
\<close>

datatype table = daily_hygiene_data | streak_data | dashboard_data | profiles

record env =
  now :: instant
  tzOffset :: int
  writeOk :: "table \<Rightarrow> bool"

definition msPerDay :: int where
  "msPerDay = 1000 * 60 * 60 * 24"

text \<open>\<^verbatim>\<open>Math.round\<close>: the nearest integer, a tie going up.\<close>

definition Math_round :: "rat \<Rightarrow> int" where
  "Math_round x = \<lfloor>x + 1 / 2\<rfloor>"

text \<open>\<^verbatim>\<open>d.toISOString().split('T')[0]\<close>: the calendar date in UTC.\<close>

definition toISODate :: "instant \<Rightarrow> dateString" where
  "toISODate t = t div msPerDay"

text \<open>\<^verbatim>\<open>new Date('YYYY-MM-DD').getTime()\<close>: a date-only string is midnight UTC.\<close>

definition parseDate :: "dateString \<Rightarrow> instant" where
  "parseDate d = d * msPerDay"

text \<open>\<^verbatim>\<open>d.toDateString()\<close>: the calendar date in local time, as a day number.\<close>

definition toDateString :: "int \<Rightarrow> instant \<Rightarrow> int" where
  "toDateString tz t = (t + tz) div msPerDay"

text \<open>\<^verbatim>\<open>d.setHours(0, 0, 0, 0)\<close>: the instant of the local midnight that starts
  the local day of \<open>t\<close>.\<close>

definition setHours0 :: "int \<Rightarrow> instant \<Rightarrow> instant" where
  "setHours0 tz t = toDateString tz t * msPerDay - tz"


section \<open>The calculation engine\<close>

subsection \<open>Rate table (\<^verbatim>\<open>WATER_METRICS\<close>) and defaults\<close>

definition SHOWER_GPM :: rat where "SHOWER_GPM = 2.1"
definition BATH_GPB :: rat where "BATH_GPB = 40"
definition FAUCET_GPM :: rat where "FAUCET_GPM = 1.5"
definition FLUSH_GPF :: rat where "FLUSH_GPF = 1.6"
definition LAUNDRY_GPL :: rat where "LAUNDRY_GPL = 30"
definition DISHWASHER_GPC :: rat where "DISHWASHER_GPC = 6"
definition GARDEN_GPM :: rat where "GARDEN_GPM = 12"
definition CLOTHING_AVG_GPI :: rat where "CLOTHING_AVG_GPI = 1400"
definition DIET_MEAT_GPM :: rat where "DIET_MEAT_GPM = 450"
definition FUEL_GPM :: rat where "FUEL_GPM = 0.5"
definition AI_QUERY_GPQ :: rat where "AI_QUERY_GPQ = 0.13"
definition RECYCLING_CREDIT :: rat where "RECYCLING_CREDIT = - 5"
definition COMPOST_CREDIT :: rat where "COMPOST_CREDIT = - 15"

definition BASELINE_CANADIAN_WEEKLY :: rat where
  "BASELINE_CANADIAN_WEEKLY = 4200"

record DailyHygieneMetrics =
  showerMinutes :: rat
  baths :: rat
  faucetMinutes :: rat
  flushes :: rat

record WeeklyUsageMetrics =
  laundryLoads :: rat
  dishwasherLoads :: rat
  gardenMinutes :: rat
  meatMeals :: rat
  newClothingItems :: rat
  milesDriven :: rat
  recyclingItems :: rat
  compostLbs :: rat
  aiQueries :: rat

text \<open>
  \<^verbatim>\<open>WaterUsageMetrics\<close> has the thirteen keys of the two records above. The code builds
  it as \<^verbatim>\<open>{...dailyInputs, ...weeklyInputs}\<close>; the key sets are disjoint, so the
  spread is the pair of the two records.
\<close>

record WaterUsageMetrics =
  daily :: DailyHygieneMetrics
  weekly :: WeeklyUsageMetrics

definition DEFAULT_INPUTS :: WaterUsageMetrics where
  "DEFAULT_INPUTS =
     \<lparr>daily = \<lparr>showerMinutes = 8, baths = 1, faucetMinutes = 5, flushes = 5\<rparr>,
      weekly = \<lparr>laundryLoads = 4, dishwasherLoads = 5, gardenMinutes = 15, meatMeals = 7,
                newClothingItems = 1, milesDriven = 100, recyclingItems = 5, compostLbs = 2,
                aiQueries = 20\<rparr>\<rparr>"

definition DEFAULT_DAILY_INPUTS :: DailyHygieneMetrics where
  "DEFAULT_DAILY_INPUTS = \<lparr>showerMinutes = 8, baths = 0, faucetMinutes = 5, flushes = 5\<rparr>"

definition DEFAULT_WEEKLY_INPUTS :: WeeklyUsageMetrics where
  "DEFAULT_WEEKLY_INPUTS =
     \<lparr>laundryLoads = 4, dishwasherLoads = 5, gardenMinutes = 15, meatMeals = 7,
      newClothingItems = 1, milesDriven = 100, recyclingItems = 5, compostLbs = 2,
      aiQueries = 20\<rparr>"

subsection \<open>\<^verbatim>\<open>stats\<close>\<close>

record breakdown =
  Showers :: rat
  Baths :: rat
  Toilet :: rat
  Faucets :: rat
  Laundry :: rat
  Dishes :: rat
  Garden :: rat
  Clothing :: rat
  Diet :: rat
  Transport :: rat
  AI_Usage :: rat
  Recycling :: rat
  Compost :: rat

record FootprintResult =
  breakdown :: breakdown
  directTotal :: rat
  virtualTotal :: rat
  grandTotal :: rat
  score :: int
  trend :: rat

text \<open>
  \<^verbatim>\<open>Math.max(1, user.householdSize || 1)\<close>. The household size is a number that may be
  missing (\<^verbatim>\<open>undefined\<close>, \<^verbatim>\<open>null\<close> or \<^verbatim>\<open>NaN\<close>, all false for \<^verbatim>\<open>||\<close>:
  \<^term>\<open>None\<close>); the number 0 is false for \<^verbatim>\<open>||\<close> too.
\<close>

definition householdDivisor :: "rat option \<Rightarrow> rat" where
  "householdDivisor householdSize =
     max 1 (case householdSize of
              None \<Rightarrow> 1
            | Some h \<Rightarrow> if h = 0 then 1 else h)"

text \<open>The impact score from the grand total (the last two lines of \<^verbatim>\<open>stats\<close>
  before its result).\<close>

definition rawScore :: "rat \<Rightarrow> rat" where
  "rawScore g = 100 - ((g - 1500) / 40)"

definition scoreOf :: "rat \<Rightarrow> int" where
  "scoreOf g = max 0 (min 100 (Math_round (rawScore g)))"

definition stats :: "rat option \<Rightarrow> WaterUsageMetrics \<Rightarrow> FootprintResult" where
  "stats householdSize inputs =
    (let d = daily inputs; w = weekly inputs;
         divisor = householdDivisor householdSize;
         showerWeekly = showerMinutes d * SHOWER_GPM * 7;
         bathWeekly = baths d * BATH_GPB;
         faucetWeekly = faucetMinutes d * FAUCET_GPM * 7;
         toiletWeekly = flushes d * FLUSH_GPF * 7;
         laundryWeekly = (laundryLoads w * LAUNDRY_GPL) / divisor;
         dishwasherWeekly = (dishwasherLoads w * DISHWASHER_GPC) / divisor;
         gardenWeekly = (gardenMinutes w * GARDEN_GPM) / divisor;
         clothingWeekly = newClothingItems w * CLOTHING_AVG_GPI;
         dietWeekly = meatMeals w * DIET_MEAT_GPM;
         transportWeekly = milesDriven w * FUEL_GPM;
         aiWeekly = aiQueries w * AI_QUERY_GPQ;
         recyclingWeekly = recyclingItems w * RECYCLING_CREDIT;
         compostWeekly = compostLbs w * COMPOST_CREDIT;
         direct = showerWeekly + bathWeekly + faucetWeekly + toiletWeekly + laundryWeekly
                    + dishwasherWeekly + gardenWeekly;
         virtual = clothingWeekly + dietWeekly + transportWeekly + aiWeekly + recyclingWeekly
                    + compostWeekly;
         grand = direct + virtual
     in \<lparr>breakdown =
           \<lparr>Showers = showerWeekly, Baths = bathWeekly, Toilet = toiletWeekly,
            Faucets = faucetWeekly, Laundry = laundryWeekly, Dishes = dishwasherWeekly,
            Garden = gardenWeekly, Clothing = clothingWeekly, Diet = dietWeekly,
            Transport = transportWeekly, AI_Usage = aiWeekly, Recycling = recyclingWeekly,
            Compost = compostWeekly\<rparr>,
         directTotal = direct,
         virtualTotal = virtual,
         grandTotal = grand,
         score = scoreOf grand,
         trend = ((grand - BASELINE_CANADIAN_WEEKLY) / BASELINE_CANADIAN_WEEKLY) * 100\<rparr>)"


section \<open>Submission windows and the streak\<close>

subsection \<open>State\<close>

record StreakData =
  currentStreak :: int
  longestStreak :: int
  lastLogDate :: "dateString option"
  totalPoints :: int

text \<open>The shape shared by \<^verbatim>\<open>user.dailyHygieneData\<close> and \<^verbatim>\<open>user.dashboardData\<close>.\<close>

record 'a PeriodData =
  inputs :: 'a
  isSubmitted :: bool
  lastUpdated :: "instant option"

text \<open>The fields of the \<^verbatim>\<open>user\<close> prop that the dashboard reads or replaces.\<close>

record User =
  householdSize :: "rat option"
  monthlyUsage :: int
  dashboardData :: "WaterUsageMetrics PeriodData option"
  dailyHygieneData :: "DailyHygieneMetrics PeriodData option"
  userStreakData :: "StreakData option"

text \<open>
  The component's state: the \<^verbatim>\<open>useState\<close> cells of \<^verbatim>\<open>Dashboard\<close> and the
  \<^verbatim>\<open>user\<close> prop, which \<^verbatim>\<open>onUpdateUser\<close> replaces.
\<close>

record Dashboard =
  user :: User
  dailyInputs :: DailyHygieneMetrics
  isDailySubmitted :: bool
  weeklyInputs :: WeeklyUsageMetrics
  isWeeklySubmitted :: bool
  streakData :: StreakData
  saving :: bool

datatype dailyKey = K_showerMinutes | K_baths | K_faucetMinutes | K_flushes

datatype weeklyKey =
  K_laundryLoads | K_dishwasherLoads | K_gardenMinutes | K_meatMeals | K_newClothingItems
| K_milesDriven | K_recyclingItems | K_compostLbs | K_aiQueries

text \<open>The three \<^verbatim>\<open>alert\<close> messages of the submit handlers.\<close>

datatype alert = AlreadyLoggedToday | FailedToSaveDaily | FailedToSaveWeekly

subsection \<open>\<^verbatim>\<open>isNewDay\<close> and \<^verbatim>\<open>isNewWeek\<close>\<close>

definition isNewDay :: "env \<Rightarrow> User \<Rightarrow> bool" where
  "isNewDay e u =
     (case dailyHygieneData u of
        None \<Rightarrow> True
      | Some d \<Rightarrow>
          (case lastUpdated d of
             None \<Rightarrow> True
           | Some t \<Rightarrow>
               (let lastDate = toDateString (tzOffset e) t;
                    today = toDateString (tzOffset e) (now e)
                in lastDate \<noteq> today)))"

definition oneWeekMs :: int where
  "oneWeekMs = 7 * 24 * 60 * 60 * 1000"

definition isNewWeek :: "env \<Rightarrow> User \<Rightarrow> bool" where
  "isNewWeek e u =
     (case dashboardData u of
        None \<Rightarrow> False
      | Some d \<Rightarrow>
          (case lastUpdated d of
             None \<Rightarrow> False
           | Some last' \<Rightarrow> (now e - last') > oneWeekMs))"

text \<open>The initial values of the two flags and of the streak (the \<^verbatim>\<open>useState\<close>
  initialisers).\<close>

definition initIsDailySubmitted :: "env \<Rightarrow> User \<Rightarrow> bool" where
  "initIsDailySubmitted e u =
     (if isNewDay e u then False
      else (case dailyHygieneData u of None \<Rightarrow> False | Some d \<Rightarrow> isSubmitted d))"

definition initIsWeeklySubmitted :: "env \<Rightarrow> User \<Rightarrow> bool" where
  "initIsWeeklySubmitted e u =
     (if isNewWeek e u then False
      else (case dashboardData u of None \<Rightarrow> False | Some d \<Rightarrow> isSubmitted d))"

definition initStreakData :: "User \<Rightarrow> StreakData" where
  "initStreakData u =
     (case userStreakData u of
        Some sd \<Rightarrow> sd
      | None \<Rightarrow> \<lparr>currentStreak = 0, longestStreak = 0, lastLogDate = None, totalPoints = 0\<rparr>)"

text \<open>\<^verbatim>\<open>x || d\<close> on numbers: 0 (and a missing number) gives the default.\<close>

definition orDefault :: "rat \<Rightarrow> rat \<Rightarrow> rat" where
  "orDefault x d = (if x = 0 then d else x)"

definition initDailyInputs :: "User \<Rightarrow> DailyHygieneMetrics" where
  "initDailyInputs u =
     (case dailyHygieneData u of None \<Rightarrow> DEFAULT_DAILY_INPUTS | Some d \<Rightarrow> inputs d)"

definition initWeeklyInputs :: "User \<Rightarrow> WeeklyUsageMetrics" where
  "initWeeklyInputs u =
     (case dashboardData u of
        None \<Rightarrow> DEFAULT_WEEKLY_INPUTS
      | Some d \<Rightarrow>
          (let w = weekly (inputs d); dflt = DEFAULT_WEEKLY_INPUTS
           in \<lparr>laundryLoads = orDefault (laundryLoads w) (laundryLoads dflt),
               dishwasherLoads = orDefault (dishwasherLoads w) (dishwasherLoads dflt),
               gardenMinutes = orDefault (gardenMinutes w) (gardenMinutes dflt),
               meatMeals = orDefault (meatMeals w) (meatMeals dflt),
               newClothingItems = orDefault (newClothingItems w) (newClothingItems dflt),
               milesDriven = orDefault (milesDriven w) (milesDriven dflt),
               recyclingItems = orDefault (recyclingItems w) (recyclingItems dflt),
               compostLbs = orDefault (compostLbs w) (compostLbs dflt),
               aiQueries = orDefault (aiQueries w) (aiQueries dflt)\<rparr>))"

text \<open>The state of the component when it is first rendered for \<open>u\<close>.\<close>

definition initDashboard :: "env \<Rightarrow> User \<Rightarrow> Dashboard" where
  "initDashboard e u =
     \<lparr>user = u,
      dailyInputs = initDailyInputs u,
      isDailySubmitted = initIsDailySubmitted e u,
      weeklyInputs = initWeeklyInputs u,
      isWeeklySubmitted = initIsWeeklySubmitted e u,
      streakData = initStreakData u,
      saving = False\<rparr>"

subsection \<open>\<^verbatim>\<open>calculateStreak\<close>\<close>

text \<open>
  \<^verbatim>\<open>diffDays\<close> as \<^verbatim>\<open>calculateStreak\<close> computes it: both dates are moved to their local
  midnight by \<^verbatim>\<open>setHours(0, 0, 0, 0)\<close>, and the stored date string is read by
  \<^verbatim>\<open>new Date(lastLogDate)\<close>, that is as midnight UTC.
\<close>

definition diffDays :: "env \<Rightarrow> dateString \<Rightarrow> int" where
  "diffDays e lastLog =
     (let today = setHours0 (tzOffset e) (now e);
          lastLog' = setHours0 (tzOffset e) (parseDate lastLog);
          diffTime = today - lastLog'
      in diffTime div (1000 * 60 * 60 * 24))"

definition calculateStreak :: "env \<Rightarrow> dateString option \<Rightarrow> int \<Rightarrow> int \<times> bool" where
  "calculateStreak e lastLog currentStreakFromDB =
     (case lastLog of
        None \<Rightarrow> (1, False)
      | Some d \<Rightarrow>
          if diffDays e d = 0 then (currentStreakFromDB, True)
          else if diffDays e d = 1 then (currentStreakFromDB + 1, True)
          else (1, False))"

subsection \<open>Editing inputs\<close>

fun setDaily :: "dailyKey \<Rightarrow> rat \<Rightarrow> DailyHygieneMetrics \<Rightarrow> DailyHygieneMetrics" where
  "setDaily K_showerMinutes v prev = prev\<lparr>showerMinutes := v\<rparr>"
| "setDaily K_baths v prev = prev\<lparr>baths := v\<rparr>"
| "setDaily K_faucetMinutes v prev = prev\<lparr>faucetMinutes := v\<rparr>"
| "setDaily K_flushes v prev = prev\<lparr>flushes := v\<rparr>"

fun setWeekly :: "weeklyKey \<Rightarrow> rat \<Rightarrow> WeeklyUsageMetrics \<Rightarrow> WeeklyUsageMetrics" where
  "setWeekly K_laundryLoads v prev = prev\<lparr>laundryLoads := v\<rparr>"
| "setWeekly K_dishwasherLoads v prev = prev\<lparr>dishwasherLoads := v\<rparr>"
| "setWeekly K_gardenMinutes v prev = prev\<lparr>gardenMinutes := v\<rparr>"
| "setWeekly K_meatMeals v prev = prev\<lparr>meatMeals := v\<rparr>"
| "setWeekly K_newClothingItems v prev = prev\<lparr>newClothingItems := v\<rparr>"
| "setWeekly K_milesDriven v prev = prev\<lparr>milesDriven := v\<rparr>"
| "setWeekly K_recyclingItems v prev = prev\<lparr>recyclingItems := v\<rparr>"
| "setWeekly K_compostLbs v prev = prev\<lparr>compostLbs := v\<rparr>"
| "setWeekly K_aiQueries v prev = prev\<lparr>aiQueries := v\<rparr>"

definition handleDailyInputChange :: "dailyKey \<Rightarrow> rat \<Rightarrow> Dashboard \<Rightarrow> Dashboard" where
  "handleDailyInputChange field v st =
     (let st1 = st\<lparr>dailyInputs := setDaily field v (dailyInputs st)\<rparr>
      in if isDailySubmitted st then st1\<lparr>isDailySubmitted := False\<rparr> else st1)"

definition handleWeeklyInputChange :: "weeklyKey \<Rightarrow> rat \<Rightarrow> Dashboard \<Rightarrow> Dashboard" where
  "handleWeeklyInputChange field v st =
     (let st1 = st\<lparr>weeklyInputs := setWeekly field v (weeklyInputs st)\<rparr>
      in if isWeeklySubmitted st then st1\<lparr>isWeeklySubmitted := False\<rparr> else st1)"

subsection \<open>Submitting\<close>

text \<open>
  Both handlers set \<^verbatim>\<open>saving\<close> on entry and clear it on every way out. A write that
  comes back with an error, or throws, lands in the \<^verbatim>\<open>catch\<close> block: the handler shows
  an alert and returns without touching any other state. The second write is attempted only
  after the first has succeeded. The result is the alert shown, if any, and the state after
  the handler.
\<close>

definition handleDailySubmit :: "env \<Rightarrow> Dashboard \<Rightarrow> alert option \<times> Dashboard" where
  "handleDailySubmit e st =
     (let now' = now e;
          todayStr = toISODate (now e)
      in if lastLogDate (streakData st) = Some todayStr
         then (Some AlreadyLoggedToday, st\<lparr>saving := False\<rparr>)
         else
           (let (currentStreak', isConsecutive) =
                  calculateStreak e (lastLogDate (streakData st)) (currentStreak (streakData st));
                longestStreak' = max currentStreak' (longestStreak (streakData st));
                totalPoints' = totalPoints (streakData st) + 1
            in if \<not> writeOk e daily_hygiene_data then (Some FailedToSaveDaily, st\<lparr>saving := False\<rparr>)
               else if \<not> writeOk e streak_data then (Some FailedToSaveDaily, st\<lparr>saving := False\<rparr>)
               else
                 (let newStreakData =
                        \<lparr>currentStreak = currentStreak', longestStreak = longestStreak',
                         lastLogDate = Some todayStr, totalPoints = totalPoints'\<rparr>;
                      updatedUser =
                        (user st)
                          \<lparr>dailyHygieneData :=
                             Some \<lparr>inputs = dailyInputs st, isSubmitted = True,
                                   lastUpdated = Some now'\<rparr>,
                           userStreakData := Some newStreakData\<rparr>
                  in (None,
                      st\<lparr>isDailySubmitted := True, streakData := newStreakData,
                         user := updatedUser, saving := False\<rparr>))))"

definition handleWeeklySubmit :: "env \<Rightarrow> Dashboard \<Rightarrow> alert option \<times> Dashboard" where
  "handleWeeklySubmit e st =
     (let now' = now e;
          combinedInputs = \<lparr>daily = dailyInputs st, weekly = weeklyInputs st\<rparr>;
          newMonthlyUsage =
            Math_round (grandTotal (stats (householdSize (user st)) combinedInputs) * 4)
      in if \<not> writeOk e dashboard_data then (Some FailedToSaveWeekly, st\<lparr>saving := False\<rparr>)
         else if \<not> writeOk e profiles then (Some FailedToSaveWeekly, st\<lparr>saving := False\<rparr>)
         else
           (let updatedUser =
                  (user st)
                    \<lparr>dashboardData :=
                       Some \<lparr>inputs = combinedInputs, isSubmitted = True,
                             lastUpdated = Some now'\<rparr>,
                     monthlyUsage := newMonthlyUsage\<rparr>
            in (None, st\<lparr>isWeeklySubmitted := True, user := updatedUser, saving := False\<rparr>)))"


text \<open>The state after a run of daily submissions, each made in its own surroundings.\<close>

fun dailySubmits :: "env list \<Rightarrow> Dashboard \<Rightarrow> Dashboard" where
  "dailySubmits [] st = st"
| "dailySubmits (e # es) st = dailySubmits es (snd (handleDailySubmit e st))"

text \<open>
  The states in which the streak tracker is started and which it keeps (proved below): a
  stored log date comes with a current streak of at least 1.
\<close>

definition streakInv :: "StreakData \<Rightarrow> bool" where
  "streakInv sd = (case lastLogDate sd of None \<Rightarrow> True | Some d \<Rightarrow> 1 \<le> currentStreak sd)"

subsection \<open>Sample data for the worked examples\<close>

text \<open>
  A store whose writes all succeed; a user with no saved logs and a given streak row; the dashboard as it stands for that user before anything
  is edited or submitted. Day 19732 is 2024-01-10, and the instant 1704992400000 is
  2024-01-11 at 17:00 UTC, which is noon of the same day where local time is UTC-5
  (offset -18000000 ms).
\<close>

abbreviation storeUp :: "table \<Rightarrow> bool" where
  "storeUp \<equiv> \<lambda>t. True"

abbreviation sampleUser :: "StreakData option \<Rightarrow> User" where
  "sampleUser sd \<equiv>
     \<lparr>householdSize = Some 1, monthlyUsage = 0, dashboardData = None, dailyHygieneData = None,
      userStreakData = sd\<rparr>"

abbreviation sampleState :: "StreakData \<Rightarrow> Dashboard" where
  "sampleState sd \<equiv>
     \<lparr>user = sampleUser (Some sd),
      dailyInputs = DEFAULT_DAILY_INPUTS, isDailySubmitted = False,
      weeklyInputs = DEFAULT_WEEKLY_INPUTS, isWeeklySubmitted = False,
      streakData = sd, saving = False\<rparr>"


section \<open>Properties of the calculation engine\<close>




lemma householdDivisor_ge_1: "1 \<le> householdDivisor hs"
  by (simp add: householdDivisor_def)

lemma householdDivisor_Some: "householdDivisor (Some h) = max 1 h"
  by (simp add: householdDivisor_def max_def)


lemma grandTotal_stats:
  "grandTotal (stats hs i) = directTotal (stats hs i) + virtualTotal (stats hs i)"
  by (simp add: stats_def Let_def)





text \<open>
  Claim C7. A missing household size gives the divisor 1, and so does every household
  size that is 0 or less; for every household size the divisor is max(1, householdSize)
  and at least 1, so it is neither zero nor negative, and the laundry, dishwasher and
  garden gallons are true quotients: multiplied by the divisor they give back the undivided
  gallons.
\<close>

theorem householdDivisor_safe:
  "householdDivisor None = 1
   \<and> (h \<le> 0 \<longrightarrow> householdDivisor (Some h) = 1)
   \<and> householdDivisor (Some h) = max 1 h
   \<and> 1 \<le> householdDivisor hs
   \<and> householdDivisor hs \<noteq> 0
   \<and> Laundry (breakdown (stats hs i)) * householdDivisor hs = laundryLoads (weekly i) * 30
   \<and> Dishes (breakdown (stats hs i)) * householdDivisor hs = dishwasherLoads (weekly i) * 6
   \<and> Garden (breakdown (stats hs i)) * householdDivisor hs = gardenMinutes (weekly i) * 12"
proof -
  have ge: "1 \<le> householdDivisor hs" by (rule householdDivisor_ge_1)
  then have nz: "householdDivisor hs \<noteq> 0" by simp
  have "householdDivisor None = 1" by (simp add: householdDivisor_def)
  moreover have "h \<le> 0 \<longrightarrow> householdDivisor (Some h) = 1"
    by (simp add: householdDivisor_def)
  moreover have "householdDivisor (Some h) = max 1 h" by (rule householdDivisor_Some)
  moreover have "Laundry (breakdown (stats hs i)) * householdDivisor hs
      = laundryLoads (weekly i) * 30"
    using nz by (simp add: stats_def Let_def LAUNDRY_GPL_def)
  moreover have "Dishes (breakdown (stats hs i)) * householdDivisor hs
      = dishwasherLoads (weekly i) * 6"
    using nz by (simp add: stats_def Let_def DISHWASHER_GPC_def)
  moreover have "Garden (breakdown (stats hs i)) * householdDivisor hs
      = gardenMinutes (weekly i) * 12"
    using nz by (simp add: stats_def Let_def GARDEN_GPM_def)
  ultimately show ?thesis using ge nz by blast
qed

theorem householdDivisor_safe_witness:
  "(- 3 :: rat) \<le> 0 \<and> householdDivisor (Some (- 3)) = 1
   \<and> Laundry (breakdown (stats (Some (- 3)) DEFAULT_INPUTS)) = 120"
proof -
  note t = householdDivisor_safe [of "- 3" "Some (- 3)" DEFAULT_INPUTS]
  from t have d: "householdDivisor (Some (- 3)) = 1" by simp
  from t have "Laundry (breakdown (stats (Some (- 3)) DEFAULT_INPUTS))
      * householdDivisor (Some (- 3)) = laundryLoads (weekly DEFAULT_INPUTS) * 30"
    by blast
  with d show ?thesis by (simp add: DEFAULT_INPUTS_def)
qed


section \<open>Properties of the submission windows and the streak\<close>

subsection \<open>Calendar arithmetic\<close>

lemma msPerDay_pos: "0 < msPerDay"
  by (simp add: msPerDay_def)

lemma msPerDay_val: "1000 * 60 * 60 * 24 = msPerDay"
  by (simp add: msPerDay_def)

lemma toDateString_parseDate: "toDateString tz (parseDate d) = d + tz div msPerDay"
  using msPerDay_pos by (simp add: toDateString_def parseDate_def)

lemma toDateString_midnight:
  "toDateString tz (k * msPerDay - tz + a) = k + a div msPerDay"
  using msPerDay_pos by (simp add: toDateString_def)

text \<open>\<^verbatim>\<open>diffDays\<close> is the difference of the two local day numbers.\<close>

lemma diffDays_eq:
  "diffDays e d = toDateString (tzOffset e) (now e) - toDateString (tzOffset e) (parseDate d)"
proof -
  have "(a * msPerDay - tz - (b * msPerDay - tz)) div msPerDay = a - b" for a b tz :: int
  proof -
    have "a * msPerDay - tz - (b * msPerDay - tz) = (a - b) * msPerDay"
      by (simp add: algebra_simps)
    then show ?thesis using msPerDay_pos by simp
  qed
  then show ?thesis
    unfolding diffDays_def setHours0_def Let_def msPerDay_val by blast
qed

text \<open>In a browser on UTC it is the difference of the two date strings.\<close>

lemma diffDays_UTC: "tzOffset e = 0 \<Longrightarrow> diffDays e d = toISODate (now e) - d"
  by (simp add: diffDays_eq toDateString_parseDate) (simp add: toDateString_def toISODate_def)


subsection \<open>The handlers, branch by branch\<close>

lemma handleDailySubmit_cases:
  "handleDailySubmit e st =
    (if lastLogDate (streakData st) = Some (toISODate (now e))
     then (Some AlreadyLoggedToday, st\<lparr>saving := False\<rparr>)
     else if \<not> (writeOk e daily_hygiene_data \<and> writeOk e streak_data)
     then (Some FailedToSaveDaily, st\<lparr>saving := False\<rparr>)
     else
       (let sd = streakData st;
            c = fst (calculateStreak e (lastLogDate sd) (currentStreak sd));
            new = \<lparr>currentStreak = c, longestStreak = max c (longestStreak sd),
                   lastLogDate = Some (toISODate (now e)), totalPoints = totalPoints sd + 1\<rparr>
        in (None,
            st\<lparr>isDailySubmitted := True, streakData := new,
               user := (user st)
                 \<lparr>dailyHygieneData :=
                    Some \<lparr>inputs = dailyInputs st, isSubmitted = True,
                          lastUpdated = Some (now e)\<rparr>,
                  userStreakData := Some new\<rparr>,
               saving := False\<rparr>)))"
  by (simp add: handleDailySubmit_def Let_def split: prod.splits)

lemma handleWeeklySubmit_cases:
  "handleWeeklySubmit e st =
    (if \<not> (writeOk e dashboard_data \<and> writeOk e profiles)
     then (Some FailedToSaveWeekly, st\<lparr>saving := False\<rparr>)
     else
       (let combined = \<lparr>daily = dailyInputs st, weekly = weeklyInputs st\<rparr>
        in (None,
            st\<lparr>isWeeklySubmitted := True,
               user := (user st)
                 \<lparr>dashboardData :=
                    Some \<lparr>inputs = combined, isSubmitted = True, lastUpdated = Some (now e)\<rparr>,
                  monthlyUsage :=
                    Math_round (grandTotal (stats (householdSize (user st)) combined) * 4)\<rparr>,
               saving := False\<rparr>)))"
  by (simp add: handleWeeklySubmit_def Let_def)

lemma calculateStreak_fst_cases:
  "fst (calculateStreak e l c) =
     (case l of None \<Rightarrow> 1
      | Some d \<Rightarrow> if diffDays e d = 0 then c else if diffDays e d = 1 then c + 1 else 1)"
  by (simp add: calculateStreak_def split: option.splits)

subsection \<open>Period boundaries\<close>

text \<open>
  Claim C5. \<^verbatim>\<open>isNewDay\<close> is true when there is no daily log or no time stamp on it,
  and otherwise exactly when the local calendar date of the time stamp differs from the
  local calendar date of now: for instants \<open>a\<close> and \<open>b\<close> milliseconds (less than a day)
  after the local midnights that start the local days \<open>j\<close> and \<open>k\<close>, exactly when
  \<open>j \<noteq> k\<close>. One minute before a local midnight and one minute after it are in
  different periods, although only two minutes apart. \<^verbatim>\<open>isNewWeek\<close> is false when
  there is no weekly log or no time stamp on it, and otherwise true exactly when now minus
  the time stamp is more than 7 times 24 hours.
\<close>

theorem isNewPeriod_boundaries:
  fixes p :: "DailyHygieneMetrics PeriodData" and q :: "WaterUsageMetrics PeriodData"
  shows
  "isNewDay e (u\<lparr>dailyHygieneData := None\<rparr>)
   \<and> isNewDay e (u\<lparr>dailyHygieneData := Some (p\<lparr>lastUpdated := None\<rparr>)\<rparr>)
   \<and> isNewDay e (u\<lparr>dailyHygieneData := Some (p\<lparr>lastUpdated := Some t\<rparr>)\<rparr>)
       = (toDateString (tzOffset e) t \<noteq> toDateString (tzOffset e) (now e))
   \<and> (0 \<le> a \<and> a < msPerDay \<and> 0 \<le> b \<and> b < msPerDay \<longrightarrow>
        isNewDay \<lparr>now = k * msPerDay - tz + b, tzOffset = tz, writeOk = w\<rparr>
          (u\<lparr>dailyHygieneData := Some (p\<lparr>lastUpdated := Some (j * msPerDay - tz + a)\<rparr>)\<rparr>)
        = (j \<noteq> k))
   \<and> isNewDay \<lparr>now = k * msPerDay - tz + 60000, tzOffset = tz, writeOk = w\<rparr>
        (u\<lparr>dailyHygieneData := Some (p\<lparr>lastUpdated := Some (k * msPerDay - tz - 60000)\<rparr>)\<rparr>)
   \<and> \<not> isNewWeek e (u\<lparr>dashboardData := None\<rparr>)
   \<and> \<not> isNewWeek e (u\<lparr>dashboardData := Some (q\<lparr>lastUpdated := None\<rparr>)\<rparr>)
   \<and> isNewWeek e (u\<lparr>dashboardData := Some (q\<lparr>lastUpdated := Some t\<rparr>)\<rparr>)
       = (7 * 24 * 3600000 < now e - t)"
proof -
  have win: "isNewDay \<lparr>now = k * msPerDay - tz + b, tzOffset = tz, writeOk = w\<rparr>
          (u\<lparr>dailyHygieneData := Some (p\<lparr>lastUpdated := Some (j * msPerDay - tz + a)\<rparr>)\<rparr>)
        = (j \<noteq> k)"
    if "0 \<le> a" "a < msPerDay" "0 \<le> b" "b < msPerDay"
  proof -
    have "toDateString tz (j * msPerDay - tz + a) = j" "toDateString tz (k * msPerDay - tz + b) = k"
      using that by (simp_all add: toDateString_midnight)
    then show ?thesis by (simp add: isNewDay_def)
  qed
  have edge: "isNewDay \<lparr>now = k * msPerDay - tz + 60000, tzOffset = tz, writeOk = w\<rparr>
        (u\<lparr>dailyHygieneData := Some (p\<lparr>lastUpdated := Some (k * msPerDay - tz - 60000)\<rparr>)\<rparr>)"
  proof -
    have "toDateString tz (k * msPerDay - tz + 60000) = k"
      by (simp add: toDateString_midnight) (simp add: msPerDay_def)
    moreover have "toDateString tz (k * msPerDay - tz + (- 60000)) = k - 1"
      by (simp only: toDateString_midnight) (simp add: msPerDay_def)
    ultimately show ?thesis by (simp add: isNewDay_def)
  qed
  have rest: "isNewDay e (u\<lparr>dailyHygieneData := None\<rparr>)"
    "isNewDay e (u\<lparr>dailyHygieneData := Some (p\<lparr>lastUpdated := None\<rparr>)\<rparr>)"
    "isNewDay e (u\<lparr>dailyHygieneData := Some (p\<lparr>lastUpdated := Some t\<rparr>)\<rparr>)
       = (toDateString (tzOffset e) t \<noteq> toDateString (tzOffset e) (now e))"
    "\<not> isNewWeek e (u\<lparr>dashboardData := None\<rparr>)"
    "\<not> isNewWeek e (u\<lparr>dashboardData := Some (q\<lparr>lastUpdated := None\<rparr>)\<rparr>)"
    "isNewWeek e (u\<lparr>dashboardData := Some (q\<lparr>lastUpdated := Some t\<rparr>)\<rparr>)
       = (7 * 24 * 3600000 < now e - t)"
    by (simp_all add: isNewDay_def isNewWeek_def oneWeekMs_def)
  show ?thesis using win edge rest by blast
qed

theorem isNewPeriod_boundaries_witness:
  "(0::int) \<le> 86340000 \<and> (86340000::int) < msPerDay \<and> (0::int) \<le> 60000 \<and> (60000::int) < msPerDay
   \<and> isNewDay \<lparr>now = 19733 * msPerDay - (- 18000000) + 60000, tzOffset = - 18000000,
               writeOk = storeUp\<rparr>
        ((sampleUser None)
           \<lparr>dailyHygieneData :=
              Some (\<lparr>inputs = DEFAULT_DAILY_INPUTS, isSubmitted = True, lastUpdated = None\<rparr>
                     \<lparr>lastUpdated := Some (19732 * msPerDay - (- 18000000) + 86340000)\<rparr>)\<rparr>)"
proof -
  have h: "(0::int) \<le> 86340000 \<and> (86340000::int) < msPerDay \<and> (0::int) \<le> 60000
      \<and> (60000::int) < msPerDay"
    by (simp add: msPerDay_def)
  note t = isNewPeriod_boundaries
    [where u = "sampleUser None"
       and p = "\<lparr>inputs = DEFAULT_DAILY_INPUTS, isSubmitted = True, lastUpdated = None\<rparr>"
       and a = 86340000 and b = 60000 and k = 19733 and j = 19732 and tz = "- 18000000"
       and w = storeUp]
  from t h have "isNewDay \<lparr>now = 19733 * msPerDay - (- 18000000) + 60000, tzOffset = - 18000000,
               writeOk = storeUp\<rparr>
        ((sampleUser None)
           \<lparr>dailyHygieneData :=
              Some (\<lparr>inputs = DEFAULT_DAILY_INPUTS, isSubmitted = True, lastUpdated = None\<rparr>
                     \<lparr>lastUpdated := Some (19732 * msPerDay - (- 18000000) + 86340000)\<rparr>)\<rparr>)
      = ((19732::int) \<noteq> 19733)"
    by blast
  with h show ?thesis by simp
qed

subsection \<open>Editing\<close>

text \<open>
  Claim C9. After an input of the daily log is edited the daily log is not marked
  submitted (so a set flag is reset) and the weekly flag is as before; after an input of
  the weekly log is edited the weekly log is not marked submitted and the daily flag is as
  before. The edited record is the old one with the one field replaced.
\<close>

theorem edit_resets_submitted:
  "\<not> isDailySubmitted (handleDailyInputChange f v st)
   \<and> isWeeklySubmitted (handleDailyInputChange f v st) = isWeeklySubmitted st
   \<and> dailyInputs (handleDailyInputChange f v st) = setDaily f v (dailyInputs st)
   \<and> \<not> isWeeklySubmitted (handleWeeklyInputChange g v st)
   \<and> isDailySubmitted (handleWeeklyInputChange g v st) = isDailySubmitted st
   \<and> weeklyInputs (handleWeeklyInputChange g v st) = setWeekly g v (weeklyInputs st)"
  by (simp add: handleDailyInputChange_def handleWeeklyInputChange_def Let_def)

subsection \<open>Recording a daily log\<close>

text \<open>The sample state is the dashboard as first rendered for the sample user.\<close>

lemma sampleState_init: "initDashboard e (sampleUser (Some sd)) = sampleState sd"
  by (simp add: initDashboard_def initDailyInputs_def initWeeklyInputs_def
      initIsDailySubmitted_def initIsWeeklySubmitted_def initStreakData_def
      isNewDay_def isNewWeek_def)

text \<open>
  In every time zone, a daily submission that goes through makes the longest streak the
  maximum of the new streak and the old longest, adds one point, stores today's date
  string, and gives a first log the streak 1.
\<close>

lemma recordLog_any_zone:
  assumes "fst (handleDailySubmit e st) = None"
  shows "longestStreak (streakData (snd (handleDailySubmit e st))) =
          max (currentStreak (streakData (snd (handleDailySubmit e st))))
              (longestStreak (streakData st))"
    and "totalPoints (streakData (snd (handleDailySubmit e st))) = totalPoints (streakData st) + 1"
    and "lastLogDate (streakData (snd (handleDailySubmit e st))) = Some (toISODate (now e))"
    and "lastLogDate (streakData st) = None \<Longrightarrow>
          currentStreak (streakData (snd (handleDailySubmit e st))) = 1"
  using assms
  by (simp_all add: handleDailySubmit_cases Let_def calculateStreak_fst_cases split: if_splits)

text \<open>
  In a browser whose local time is UTC, a daily submission that is not a duplicate and
  whose writes succeed evolves the streak as the documentation of the repository says:
  1 on the first log, one more the day after the last log, 1 after any other gap; the
  longest streak is the maximum of the new streak and the old longest, one point is added
  and the log date becomes today.
\<close>

lemma recordLog_UTC:
  assumes utc: "tzOffset e = 0"
    and ok: "writeOk e daily_hygiene_data" "writeOk e streak_data"
    and new: "lastLogDate (streakData st) \<noteq> Some (toISODate (now e))"
  shows "fst (handleDailySubmit e st) = None"
    and "currentStreak (streakData (snd (handleDailySubmit e st))) =
          (case lastLogDate (streakData st) of
             None \<Rightarrow> 1
           | Some d \<Rightarrow> if toISODate (now e) - d = 1 then currentStreak (streakData st) + 1 else 1)"
    and "longestStreak (streakData (snd (handleDailySubmit e st))) =
          max (currentStreak (streakData (snd (handleDailySubmit e st))))
              (longestStreak (streakData st))"
    and "totalPoints (streakData (snd (handleDailySubmit e st))) = totalPoints (streakData st) + 1"
    and "lastLogDate (streakData (snd (handleDailySubmit e st))) = Some (toISODate (now e))"
  using ok new
  by (auto simp add: handleDailySubmit_cases Let_def calculateStreak_fst_cases diffDays_UTC [OF utc]
      split: option.splits)

lemma consecutive_days_UTC:
  assumes utc: "tzOffset e1 = 0" "tzOffset e2 = 0" "tzOffset e3 = 0"
    and ok: "writeOk e1 = storeUp" "writeOk e2 = storeUp" "writeOk e3 = storeUp"
    and days: "toISODate (now e2) = toISODate (now e1) + 1"
      "toISODate (now e3) = toISODate (now e1) + 2"
    and first: "lastLogDate (streakData st) = None"
  shows "currentStreak (streakData (dailySubmits [e1] st)) = 1"
    and "currentStreak (streakData (dailySubmits [e1, e2] st)) = 2"
    and "currentStreak (streakData (dailySubmits [e1, e2, e3] st)) = 3"
  using ok days first
  by (simp_all add: handleDailySubmit_cases Let_def calculateStreak_fst_cases diffDays_UTC utc)

text \<open>
  West of UTC the stored date string is read as the local day before it. A submission on
  the next date, made while the local date is the UTC date, therefore sees a gap of two
  days.
\<close>

lemma diffDays_west:
  assumes west: "- msPerDay \<le> tzOffset e" "tzOffset e < 0"
    and next_day: "toISODate (now e) = d + 1"
    and same_date: "toDateString (tzOffset e) (now e) = toISODate (now e)"
  shows "diffDays e d = 2"
proof -
  have "tzOffset e div msPerDay = - 1"
    using west by (intro int_div_pos_eq [where r = "tzOffset e + msPerDay"]) simp_all
  then show ?thesis
    using next_day same_date by (simp add: diffDays_eq toDateString_parseDate)
qed

text \<open>
  Claim C2, where the code departs from it. The stored log date is 2024-01-10 with a
  streak of 3, and the user, five hours west of UTC, submits at noon on 2024-01-11: today's
  date string is 2024-01-11, exactly one day after the stored one, and both writes succeed.
  \<^verbatim>\<open>new Date('2024-01-10')\<close> is midnight UTC, which is 19:00 on 2024-01-09 local
  time, so \<^verbatim>\<open>setHours(0, 0, 0, 0)\<close> moves it to the local midnight of 2024-01-09;
  \<^verbatim>\<open>diffDays\<close> is 2 and the streak is reset to 1 instead of growing to 4.
\<close>

theorem consecutive_day_west_of_UTC:
  "toISODate 1704992400000 = 19732 + 1
   \<and> diffDays \<lparr>now = 1704992400000, tzOffset = - 18000000, writeOk = storeUp\<rparr> 19732 = 2
   \<and> handleDailySubmit \<lparr>now = 1704992400000, tzOffset = - 18000000, writeOk = storeUp\<rparr>
       (sampleState \<lparr>currentStreak = 3, longestStreak = 3, lastLogDate = Some 19732,
                     totalPoints = 3\<rparr>)
     = (None,
        (sampleState \<lparr>currentStreak = 1, longestStreak = 3, lastLogDate = Some 19733,
                      totalPoints = 4\<rparr>)
          \<lparr>isDailySubmitted := True,
           user := (sampleUser (Some \<lparr>currentStreak = 1, longestStreak = 3, lastLogDate = Some 19733,
                      totalPoints = 4\<rparr>))
             \<lparr>dailyHygieneData :=
                Some \<lparr>inputs = DEFAULT_DAILY_INPUTS, isSubmitted = True,
                      lastUpdated = Some 1704992400000\<rparr>\<rparr>\<rparr>)"
  by (simp add: handleDailySubmit_cases Let_def calculateStreak_fst_cases diffDays_eq
      toDateString_def parseDate_def toISODate_def msPerDay_def)

text \<open>
  Claim C3. When the stored log date is today's date string, \<^verbatim>\<open>handleDailySubmit\<close>
  shows the already-logged alert and changes nothing but the \<^verbatim>\<open>saving\<close> flag: the
  current streak, longest streak, points and log date are as before. A second submission
  on the same date as a first one that was not stopped by a failed write is therefore
  refused with that alert and leaves the four fields as the first one left them.
\<close>

theorem duplicate_refused:
  "(lastLogDate (streakData st) = Some (toISODate (now e)) \<longrightarrow>
      fst (handleDailySubmit e st) = Some AlreadyLoggedToday
      \<and> snd (handleDailySubmit e st) = st\<lparr>saving := False\<rparr>
      \<and> streakData (snd (handleDailySubmit e st)) = streakData st)
   \<and> (toISODate (now e2) = toISODate (now e)
        \<and> fst (handleDailySubmit e st) \<noteq> Some FailedToSaveDaily \<longrightarrow>
      fst (handleDailySubmit e2 (snd (handleDailySubmit e st))) = Some AlreadyLoggedToday
      \<and> streakData (snd (handleDailySubmit e2 (snd (handleDailySubmit e st))))
          = streakData (snd (handleDailySubmit e st)))"
proof -
  have dup: "fst (handleDailySubmit e' s) = Some AlreadyLoggedToday
      \<and> snd (handleDailySubmit e' s) = s\<lparr>saving := False\<rparr>
      \<and> streakData (snd (handleDailySubmit e' s)) = streakData s"
    if "lastLogDate (streakData s) = Some (toISODate (now e'))" for e' s
    using that by (simp add: handleDailySubmit_cases)
  have after: "lastLogDate (streakData (snd (handleDailySubmit e st))) = Some (toISODate (now e))"
    if "fst (handleDailySubmit e st) \<noteq> Some FailedToSaveDaily"
    using that by (simp add: handleDailySubmit_cases Let_def split: if_splits)
  show ?thesis
    using dup [of st e] dup [of "snd (handleDailySubmit e st)" e2] after by auto
qed

theorem duplicate_refused_witness:
  "lastLogDate (streakData (sampleState \<lparr>currentStreak = 3, longestStreak = 3,
       lastLogDate = Some 19733, totalPoints = 3\<rparr>))
     = Some (toISODate (now \<lparr>now = 1704992400000, tzOffset = 0, writeOk = storeUp\<rparr>))
   \<and> fst (handleDailySubmit \<lparr>now = 1704992400000, tzOffset = 0, writeOk = storeUp\<rparr>
        (sampleState \<lparr>currentStreak = 3, longestStreak = 3, lastLogDate = Some 19733,
           totalPoints = 3\<rparr>)) = Some AlreadyLoggedToday
   \<and> streakData (snd (handleDailySubmit \<lparr>now = 1704992400000, tzOffset = 0, writeOk = storeUp\<rparr>
        (sampleState \<lparr>currentStreak = 3, longestStreak = 3, lastLogDate = Some 19733,
           totalPoints = 3\<rparr>)))
     = \<lparr>currentStreak = 3, longestStreak = 3, lastLogDate = Some 19733, totalPoints = 3\<rparr>
   \<and> fst (handleDailySubmit \<lparr>now = 1704992400000, tzOffset = 0, writeOk = storeUp\<rparr>
        (sampleState \<lparr>currentStreak = 3, longestStreak = 3, lastLogDate = Some 19732,
           totalPoints = 3\<rparr>)) = None
   \<and> fst (handleDailySubmit \<lparr>now = 1704999600000, tzOffset = 0, writeOk = storeUp\<rparr>
        (snd (handleDailySubmit \<lparr>now = 1704992400000, tzOffset = 0, writeOk = storeUp\<rparr>
           (sampleState \<lparr>currentStreak = 3, longestStreak = 3, lastLogDate = Some 19732,
              totalPoints = 3\<rparr>)))) = Some AlreadyLoggedToday
   \<and> streakData (snd (handleDailySubmit \<lparr>now = 1704999600000, tzOffset = 0, writeOk = storeUp\<rparr>
        (snd (handleDailySubmit \<lparr>now = 1704992400000, tzOffset = 0, writeOk = storeUp\<rparr>
           (sampleState \<lparr>currentStreak = 3, longestStreak = 3, lastLogDate = Some 19732,
              totalPoints = 3\<rparr>)))))
     = \<lparr>currentStreak = 4, longestStreak = 4, lastLogDate = Some 19733, totalPoints = 4\<rparr>"
  (is "lastLogDate (streakData ?D) = Some (toISODate (now ?E)) \<and> _ \<and> _
       \<and> fst (handleDailySubmit ?E ?S) = None
       \<and> fst (handleDailySubmit ?E2 (snd (handleDailySubmit ?E ?S))) = _ \<and> _")
proof -
  have h1: "lastLogDate (streakData ?D) = Some (toISODate (now ?E))"
    by (simp add: toISODate_def msPerDay_def)
  have h2: "toISODate (now ?E2) = toISODate (now ?E)"
    by (simp add: toISODate_def msPerDay_def)
  have first: "handleDailySubmit ?E ?S =
      (None,
       (sampleState \<lparr>currentStreak = 4, longestStreak = 4, lastLogDate = Some 19733,
          totalPoints = 4\<rparr>)
         \<lparr>isDailySubmitted := True,
          user := (sampleUser (Some \<lparr>currentStreak = 4, longestStreak = 4,
                     lastLogDate = Some 19733, totalPoints = 4\<rparr>))
            \<lparr>dailyHygieneData :=
               Some \<lparr>inputs = DEFAULT_DAILY_INPUTS, isSubmitted = True,
                     lastUpdated = Some 1704992400000\<rparr>\<rparr>\<rparr>)"
    by (simp add: handleDailySubmit_cases Let_def calculateStreak_fst_cases diffDays_eq
        toDateString_def parseDate_def toISODate_def msPerDay_def)
  then have h3: "fst (handleDailySubmit ?E ?S) \<noteq> Some FailedToSaveDaily"
    and ok: "fst (handleDailySubmit ?E ?S) = None"
    and sd: "streakData (snd (handleDailySubmit ?E ?S))
      = \<lparr>currentStreak = 4, longestStreak = 4, lastLogDate = Some 19733, totalPoints = 4\<rparr>"
    by simp_all
  note t = duplicate_refused [of ?D ?E ?E]
  note u = duplicate_refused [of ?S ?E ?E2]
  from t h1 have a: "fst (handleDailySubmit ?E ?D) = Some AlreadyLoggedToday"
    and b: "streakData (snd (handleDailySubmit ?E ?D)) = streakData ?D"
    by blast+
  from u h2 h3
  have c: "fst (handleDailySubmit ?E2 (snd (handleDailySubmit ?E ?S))) = Some AlreadyLoggedToday"
    and d: "streakData (snd (handleDailySubmit ?E2 (snd (handleDailySubmit ?E ?S))))
      = streakData (snd (handleDailySubmit ?E ?S))"
    by blast+
  from h1 a b ok c d sd show ?thesis by simp
qed

subsection \<open>Streak invariants\<close>


lemma streakInv_step: "streakInv (streakData st) \<Longrightarrow> streakInv (streakData (snd (handleDailySubmit e st)))"
  by (auto simp add: handleDailySubmit_cases Let_def streakInv_def calculateStreak_fst_cases
      split: option.splits)

lemma streakInv_init: "userStreakData u = None \<Longrightarrow> streakInv (streakData (initDashboard e u))"
  by (simp add: initDashboard_def initStreakData_def streakInv_def)


lemma streakInv_dailySubmits:
  "streakInv (streakData st) \<Longrightarrow> streakInv (streakData (dailySubmits es st))"
  by (induction es arbitrary: st) (simp_all add: streakInv_step)





subsection \<open>Failed writes\<close>

text \<open>
  Claim C8. When one of the two writes of a daily submission fails, the handler shows an
  alert (the save-failed alert unless the submission was a duplicate) and the state is the
  old one with \<^verbatim>\<open>saving\<close> cleared: streak, submitted flags and user are untouched.
  When one of the two writes of a weekly submission fails, the handler shows the
  save-failed alert and the state is again the old one with \<^verbatim>\<open>saving\<close> cleared.
  Conversely, whenever a handler leaves any other state, it showed no alert and both of
  its writes had succeeded.
\<close>

theorem failed_write_keeps_state:
  "(\<not> (writeOk e daily_hygiene_data \<and> writeOk e streak_data) \<longrightarrow>
      fst (handleDailySubmit e st) \<noteq> None
      \<and> snd (handleDailySubmit e st) = st\<lparr>saving := False\<rparr>)
   \<and> (\<not> (writeOk e daily_hygiene_data \<and> writeOk e streak_data)
        \<and> lastLogDate (streakData st) \<noteq> Some (toISODate (now e)) \<longrightarrow>
      fst (handleDailySubmit e st) = Some FailedToSaveDaily)
   \<and> (\<not> (writeOk e dashboard_data \<and> writeOk e profiles) \<longrightarrow>
      handleWeeklySubmit e st = (Some FailedToSaveWeekly, st\<lparr>saving := False\<rparr>))
   \<and> (snd (handleDailySubmit e st) \<noteq> st\<lparr>saving := False\<rparr> \<longrightarrow>
      fst (handleDailySubmit e st) = None
      \<and> writeOk e daily_hygiene_data \<and> writeOk e streak_data)
   \<and> (snd (handleWeeklySubmit e st) \<noteq> st\<lparr>saving := False\<rparr> \<longrightarrow>
      fst (handleWeeklySubmit e st) = None
      \<and> writeOk e dashboard_data \<and> writeOk e profiles)"
proof -
  have d: "handleDailySubmit e st = (Some AlreadyLoggedToday, st\<lparr>saving := False\<rparr>)
      \<or> handleDailySubmit e st = (Some FailedToSaveDaily, st\<lparr>saving := False\<rparr>)"
    if "\<not> (writeOk e daily_hygiene_data \<and> writeOk e streak_data)"
    using that by (simp add: handleDailySubmit_cases)
  have d': "handleDailySubmit e st = (Some FailedToSaveDaily, st\<lparr>saving := False\<rparr>)"
    if "\<not> (writeOk e daily_hygiene_data \<and> writeOk e streak_data)"
      "lastLogDate (streakData st) \<noteq> Some (toISODate (now e))"
    using that by (simp add: handleDailySubmit_cases)
  have w: "handleWeeklySubmit e st = (Some FailedToSaveWeekly, st\<lparr>saving := False\<rparr>)"
    if "\<not> (writeOk e dashboard_data \<and> writeOk e profiles)"
    using that by (simp add: handleWeeklySubmit_cases)
  have dc: "fst (handleDailySubmit e st) = None
      \<and> writeOk e daily_hygiene_data \<and> writeOk e streak_data"
    if "snd (handleDailySubmit e st) \<noteq> st\<lparr>saving := False\<rparr>"
    using that by (simp add: handleDailySubmit_cases Let_def split: if_splits)
  have wc: "fst (handleWeeklySubmit e st) = None
      \<and> writeOk e dashboard_data \<and> writeOk e profiles"
    if "snd (handleWeeklySubmit e st) \<noteq> st\<lparr>saving := False\<rparr>"
    using that by (simp add: handleWeeklySubmit_cases Let_def split: if_splits)
  show ?thesis
    using d d' w dc wc by (metis fst_conv option.distinct(1))
qed

theorem failed_write_keeps_state_witness:
  "\<not> (writeOk \<lparr>now = 1704992400000, tzOffset = 0, writeOk = (\<lambda>t. t = daily_hygiene_data)\<rparr>
         daily_hygiene_data
       \<and> writeOk \<lparr>now = 1704992400000, tzOffset = 0, writeOk = (\<lambda>t. t = daily_hygiene_data)\<rparr>
         streak_data)
   \<and> handleDailySubmit \<lparr>now = 1704992400000, tzOffset = 0, writeOk = (\<lambda>t. t = daily_hygiene_data)\<rparr>
        (sampleState \<lparr>currentStreak = 3, longestStreak = 3, lastLogDate = Some 19732,
           totalPoints = 3\<rparr>)
      = (Some FailedToSaveDaily,
         sampleState \<lparr>currentStreak = 3, longestStreak = 3, lastLogDate = Some 19732,
           totalPoints = 3\<rparr>)
   \<and> handleWeeklySubmit \<lparr>now = 1704992400000, tzOffset = 0, writeOk = (\<lambda>t. t = daily_hygiene_data)\<rparr>
        (sampleState \<lparr>currentStreak = 3, longestStreak = 3, lastLogDate = Some 19732,
           totalPoints = 3\<rparr>)
      = (Some FailedToSaveWeekly,
         sampleState \<lparr>currentStreak = 3, longestStreak = 3, lastLogDate = Some 19732,
           totalPoints = 3\<rparr>)
   \<and> snd (handleDailySubmit \<lparr>now = 1704992400000, tzOffset = 0, writeOk = storeUp\<rparr>
        (sampleState \<lparr>currentStreak = 3, longestStreak = 3, lastLogDate = Some 19732,
           totalPoints = 3\<rparr>))
      \<noteq> sampleState \<lparr>currentStreak = 3, longestStreak = 3, lastLogDate = Some 19732,
           totalPoints = 3\<rparr>
   \<and> snd (handleWeeklySubmit \<lparr>now = 1704992400000, tzOffset = 0, writeOk = storeUp\<rparr>
        (sampleState \<lparr>currentStreak = 3, longestStreak = 3, lastLogDate = Some 19732,
           totalPoints = 3\<rparr>))
      \<noteq> sampleState \<lparr>currentStreak = 3, longestStreak = 3, lastLogDate = Some 19732,
           totalPoints = 3\<rparr>
   \<and> fst (handleDailySubmit \<lparr>now = 1704992400000, tzOffset = 0, writeOk = storeUp\<rparr>
        (sampleState \<lparr>currentStreak = 3, longestStreak = 3, lastLogDate = Some 19732,
           totalPoints = 3\<rparr>)) = None"
  (is "\<not> (writeOk ?E daily_hygiene_data \<and> writeOk ?E streak_data)
       \<and> handleDailySubmit ?E ?S = _ \<and> handleWeeklySubmit ?E ?S = _
       \<and> snd (handleDailySubmit ?U ?S) \<noteq> ?S \<and> snd (handleWeeklySubmit ?U ?S) \<noteq> ?S \<and> _")
proof -
  have s: "?S\<lparr>saving := False\<rparr> = ?S" by simp
  have h1: "\<not> (writeOk ?E daily_hygiene_data \<and> writeOk ?E streak_data)" by simp
  have h2: "lastLogDate (streakData ?S) \<noteq> Some (toISODate (now ?E))"
    by (simp add: toISODate_def msPerDay_def)
  have h3: "\<not> (writeOk ?E dashboard_data \<and> writeOk ?E profiles)" by simp
  have h4: "snd (handleDailySubmit ?U ?S) \<noteq> ?S\<lparr>saving := False\<rparr>"
    by (simp add: handleDailySubmit_cases Let_def toISODate_def msPerDay_def)
  have h5: "snd (handleWeeklySubmit ?U ?S) \<noteq> ?S\<lparr>saving := False\<rparr>"
    by (simp add: handleWeeklySubmit_cases Let_def)
  note t = failed_write_keeps_state [of ?E ?S]
  note u = failed_write_keeps_state [of ?U ?S]
  from t h1 h2 have "fst (handleDailySubmit ?E ?S) = Some FailedToSaveDaily"
    "snd (handleDailySubmit ?E ?S) = ?S\<lparr>saving := False\<rparr>"
    by blast+
  then have d: "handleDailySubmit ?E ?S = (Some FailedToSaveDaily, ?S)"
    unfolding s by (simp add: prod_eq_iff)
  from t h3 have "handleWeeklySubmit ?E ?S = (Some FailedToSaveWeekly, ?S\<lparr>saving := False\<rparr>)"
    by blast
  then have w: "handleWeeklySubmit ?E ?S = (Some FailedToSaveWeekly, ?S)"
    unfolding s .
  from u h4 have ok: "fst (handleDailySubmit ?U ?S) = None" by blast
  from h1 d w h4 h5 ok show ?thesis unfolding s by blast
qed

end
